theory Spec2Isabelle
  imports Complex_Main "HOL-Library.AList"
begin

section \<open>Numbers and containers of the TypeScript sources\<close>

text \<open>
  JavaScript numbers are modelled as exact reals: the claims below are about comparisons,
  sums and products of bet amounts and multipliers, and the concrete inputs used are far
  from any rounding boundary. \<open>Math.floor\<close> and \<open>Math.round\<close> (round half up) return
  integers; \<open>Math.max\<close> is \<open>max\<close>.

  A JavaScript \<open>Map\<close> keeps its keys unique and in insertion order: it is an association
  list, \<open>has\<close>/\<open>get\<close> are \<open>map_of\<close>, \<open>set\<close> replaces in place or appends
  (\<open>AList.update\<close>), \<open>delete\<close> is \<open>AList.delete\<close>.
\<close>

definition Math_floor :: "real \<Rightarrow> real" where
  "Math_floor x = of_int \<lfloor>x\<rfloor>"

definition Math_round :: "real \<Rightarrow> real" where
  "Math_round x = of_int \<lfloor>x + 1 / 2\<rfloor>"

definition startsWith :: "string \<Rightarrow> string \<Rightarrow> bool" where
  "startsWith s p = (take (length p) s = p)"

text \<open>The test that excludes system and simulation wallets, written the same way at every
  place of the sources that filters real-money bets.\<close>

definition isRealWallet :: "string \<Rightarrow> bool" where
  "isRealWallet w = (\<not> startsWith w ''SW_'' \<and> \<not> startsWith w ''SIM_'')"

section \<open>gameSession.ts: the per-round session\<close>

text \<open>Bets and users both carry a \<open>walletId\<close>; the common field is a parent record.\<close>

record wallet_holder =
  walletId :: string

record bet = wallet_holder +
  amount :: real
  cashoutAt :: "real option"

record GameSession =
  sessionId :: string
  gameHash :: string
  crashPoint :: real
  salt :: string
  clientSeed :: string
  gameStartTime :: "int option"
  gameEndTime :: "int option"
  bets :: "(string \<times> bet) list"
  nextRoundBets :: "(string \<times> real) list"
  currentMultiplier :: real
  secondBets :: "(string \<times> bet) list"
  secondNextRoundBets :: "(string \<times> real) list"
  roundId :: int

text \<open>The constructor: no start or end time, empty ledgers, multiplier 1.\<close>

definition newGameSession ::
  "string \<Rightarrow> string \<Rightarrow> real \<Rightarrow> string \<Rightarrow> string \<Rightarrow> int \<Rightarrow> GameSession" where
  "newGameSession i h cp sl cs rid =
     \<lparr>sessionId = i, gameHash = h, crashPoint = cp, salt = sl, clientSeed = cs,
      gameStartTime = None, gameEndTime = None, bets = [], nextRoundBets = [],
      currentMultiplier = 1, secondBets = [], secondNextRoundBets = [], roundId = rid\<rparr>"

definition isGameInProgress :: "GameSession \<Rightarrow> bool" where
  "isGameInProgress s = (gameStartTime s \<noteq> None \<and> gameEndTime s = None)"

text \<open>\<open>placeBet\<close> and \<open>placeSecondBet\<close> return the boolean of the source and the session
  after the call.\<close>

definition placeBet :: "string \<Rightarrow> real \<Rightarrow> GameSession \<Rightarrow> bool \<times> GameSession" where
  "placeBet w a s =
     (if map_of (bets s) w = None
      then (True, s\<lparr>bets := AList.update w \<lparr>walletId = w, amount = a, cashoutAt = None\<rparr> (bets s)\<rparr>)
      else (False, s))"

definition placeSecondBet :: "string \<Rightarrow> real \<Rightarrow> GameSession \<Rightarrow> bool \<times> GameSession" where
  "placeSecondBet w a s =
     (if map_of (secondBets s) w = None
      then (True, s\<lparr>secondBets :=
              AList.update w \<lparr>walletId = w, amount = a, cashoutAt = None\<rparr> (secondBets s)\<rparr>)
      else (False, s))"

text \<open>\<open>cashout\<close> returns the winnings, or \<open>None\<close> for the source's \<open>null\<close>.\<close>

definition cashout :: "string \<Rightarrow> GameSession \<Rightarrow> real option \<times> GameSession" where
  "cashout w s =
     (if \<not> isGameInProgress s then (None, s)
      else case map_of (bets s) w of
        None \<Rightarrow> (None, s)
      | Some b \<Rightarrow>
          if cashoutAt b \<noteq> None then (None, s)
          else (Some (amount b * currentMultiplier s),
                s\<lparr>bets := AList.update w (b\<lparr>cashoutAt := Some (currentMultiplier s)\<rparr>) (bets s)\<rparr>))"

definition secondCashout :: "string \<Rightarrow> GameSession \<Rightarrow> real option \<times> GameSession" where
  "secondCashout w s =
     (if \<not> isGameInProgress s then (None, s)
      else case map_of (secondBets s) w of
        None \<Rightarrow> (None, s)
      | Some b \<Rightarrow>
          if cashoutAt b \<noteq> None then (None, s)
          else (Some (amount b * currentMultiplier s),
                s\<lparr>secondBets :=
                    AList.update w (b\<lparr>cashoutAt := Some (currentMultiplier s)\<rparr>) (secondBets s)\<rparr>))"

text \<open>\<open>forEach\<close> over the queued bets, calling \<open>placeBet\<close> for each and dropping its result.\<close>

fun placeAll :: "(string \<times> real) list \<Rightarrow> GameSession \<Rightarrow> GameSession" where
  "placeAll [] s = s"
| "placeAll ((w, a) # rest) s = placeAll rest (snd (placeBet w a s))"

fun placeAllSecond :: "(string \<times> real) list \<Rightarrow> GameSession \<Rightarrow> GameSession" where
  "placeAllSecond [] s = s"
| "placeAllSecond ((w, a) # rest) s = placeAllSecond rest (snd (placeSecondBet w a s))"

definition moveNextRoundBetsToCurrent :: "GameSession \<Rightarrow> GameSession" where
  "moveNextRoundBetsToCurrent s = (placeAll (nextRoundBets s) s)\<lparr>nextRoundBets := []\<rparr>"

definition moveSecondNextRoundBetsToCurrent :: "GameSession \<Rightarrow> GameSession" where
  "moveSecondNextRoundBetsToCurrent s =
     (placeAllSecond (secondNextRoundBets s) s)\<lparr>secondNextRoundBets := []\<rparr>"

text \<open>\<open>Date.now()\<close> is the argument \<open>now\<close> (milliseconds).\<close>

definition startGame :: "int \<Rightarrow> GameSession \<Rightarrow> GameSession" where
  "startGame now s =
     moveSecondNextRoundBetsToCurrent (moveNextRoundBetsToCurrent (s\<lparr>gameStartTime := Some now\<rparr>))"

definition endGame :: "int \<Rightarrow> GameSession \<Rightarrow> GameSession" where
  "endGame now s = s\<lparr>gameEndTime := Some now\<rparr>"



text \<open>The multiplier clock. \<open>Math.pow(Math.E, x)\<close> is \<open>exp x\<close>; the start time is read
  only when the game is in progress, where it is set.\<close>

definition rawMultiplier :: "int \<Rightarrow> real" where
  "rawMultiplier elapsed = exp (0.3 * real_of_int elapsed / 1000)"

definition updateMultiplier :: "int \<Rightarrow> GameSession \<Rightarrow> GameSession" where
  "updateMultiplier now s =
     (if \<not> isGameInProgress s then s
      else case gameStartTime s of
        None \<Rightarrow> s
      | Some started \<Rightarrow>
          let elapsed = now - started;
              raw = rawMultiplier elapsed;
              increment = (if currentMultiplier s > 10 then 0.51 else 0.011);
              steps = \<lfloor>(raw - currentMultiplier s) / increment\<rfloor>
          in if steps > 0
             then s\<lparr>currentMultiplier := Math_round ((currentMultiplier s + increment) * 100) / 100\<rparr>
             else s)"

text \<open>The lifecycle state that \<open>getGameState\<close> reports, computed from the two timestamps.\<close>

datatype lifecycle = WAITING | ACTIVE | ENDED

definition lifecycleState :: "GameSession \<Rightarrow> lifecycle" where
  "lifecycleState s =
     (if gameStartTime s = None then WAITING
      else if gameEndTime s = None then ACTIVE
      else ENDED)"

text \<open>Concrete sessions used to run the operations: a round with one wallet holding a bet
  of 100 on each track, waiting, started at time 1000, and ended at time 9000.\<close>

definition waitingSession :: GameSession where
  "waitingSession =
     snd (placeSecondBet ''B1A2B3C4'' 100
       (snd (placeBet ''B1A2B3C4'' 100 (newGameSession ''g1'' ''h1'' 2.5 ''s1'' ''c1'' 7))))"

definition activeSession :: GameSession where
  "activeSession = startGame 1000 waitingSession"

definition endedSession :: GameSession where
  "endedSession = endGame 9000 activeSession"

section \<open>socketServer.ts: writing a user's balance\<close>

text \<open>
  The \<open>User\<close> rows of the database are keyed by the unique \<open>walletId\<close> and hold the
  balance; the in-memory \<open>users\<close> map is keyed by socket id. \<open>prisma.user.update\<close> throws
  when no row has the wallet or when the database cannot be reached (\<open>dbUp\<close> false); the
  source logs and rethrows, before touching the in-memory user.
\<close>

record User = wallet_holder +
  userId :: string
  wallet :: real
  isLoggedIn :: bool
  balance :: real

record server_state =
  userTable :: "string \<rightharpoonup> real"
  users :: "(string \<times> User) list"

datatype db_error = RecordNotFound | DbUnavailable

text \<open>\<open>Array.from(users.values()).find(u => u.walletId === walletId)\<close> followed by the two
  assignments to the user found: the first user with that wallet is rewritten in place.\<close>

fun setFirstUser :: "string \<Rightarrow> real \<Rightarrow> (string \<times> User) list \<Rightarrow> (string \<times> User) list" where
  "setFirstUser w v [] = []"
| "setFirstUser w v ((k, u) # rest) =
     (if walletId u = w then (k, u\<lparr>wallet := v, balance := v\<rparr>) # rest
      else (k, u) # setFirstUser w v rest)"

definition updateUserBalance ::
  "bool \<Rightarrow> string \<Rightarrow> real \<Rightarrow> server_state \<Rightarrow> db_error + server_state" where
  "updateUserBalance dbUp w newBalance st =
     (if \<not> dbUp then Inl DbUnavailable
      else case userTable st w of
        None \<Rightarrow> Inl RecordNotFound
      | Some _ \<Rightarrow>
          Inr (st\<lparr>userTable := (userTable st)(w \<mapsto> max 0 newBalance),
                  users := setFirstUser w (max 0 newBalance) (users st)\<rparr>))"

definition demoServer :: server_state where
  "demoServer =
     \<lparr>userTable = [''B1A2B3C4'' \<mapsto> 40],
      users = [(''sock1'', \<lparr>walletId = ''B1A2B3C4'', userId = ''u1'', wallet = 40,
                            isLoggedIn = True, balance = 40\<rparr>)]\<rparr>"

section \<open>The CrashGame class: exposure tracking\<close>

record CrashGame =
  currentCrashPoint :: real
  emergencyThreshold :: real
  currentGameWinnings :: real
  isEmergencyCrash :: bool
  maxAllowedCrashpoint :: real
  enforceMaxCrashpoint :: bool
  potentialWinnings :: real
  isBetBasedCrashPoint :: bool
  betBasedHouseEdgePercentage :: real
  minCrashPoint :: real
  highCrashPointFrequency :: real
  skipCrashPointManagement :: real
  betBasedOffsetAmount :: real

text \<open>The constructor's field values.\<close>

definition newCrashGame :: CrashGame where
  "newCrashGame =
     \<lparr>currentCrashPoint = 1, emergencyThreshold = 0, currentGameWinnings = 0,
      isEmergencyCrash = False, maxAllowedCrashpoint = 0, enforceMaxCrashpoint = False,
      potentialWinnings = 0, isBetBasedCrashPoint = False, betBasedHouseEdgePercentage = 60,
      minCrashPoint = 1, highCrashPointFrequency = 80, skipCrashPointManagement = 10,
      betBasedOffsetAmount = 0\<rparr>"





section \<open>The CrashGame class: the bet-based crash point\<close>




section \<open>The CrashGame class: the offset accumulator\<close>

text \<open>
  The offset lives in the field \<open>betBasedOffsetAmount\<close> and in the settings row of the
  same name, here the second component of the state. The upsert can fail (\<open>dbOk\<close> false);
  the source catches and logs that, after the field has been assigned.
\<close>

definition updateBetBasedOffsetAmount ::
  "bool \<Rightarrow> real \<Rightarrow> CrashGame \<times> real \<Rightarrow> CrashGame \<times> real" where
  "updateBetBasedOffsetAmount dbOk amt st =
     (let g = fst st;
          newAmount = betBasedOffsetAmount g + amt;
          g' = g\<lparr>betBasedOffsetAmount := max 0 newAmount\<rparr>
      in (g', if dbOk then betBasedOffsetAmount g' else snd st))"

text \<open>The payout that \<open>trackRoundResults\<close> counts for one bet: the bet was cashed out, at a
  positive multiplier that does not exceed the final crash point.\<close>

definition countedPayout :: "real \<Rightarrow> bet \<Rightarrow> real" where
  "countedPayout finalCrashPoint b =
     (case cashoutAt b of
        None \<Rightarrow> 0
      | Some c \<Rightarrow> if c \<noteq> 0 \<and> c > 0 \<and> c \<le> finalCrashPoint then amount b * c else 0)"

definition trackRoundResults ::
  "bool \<Rightarrow> bet list \<Rightarrow> real \<Rightarrow> CrashGame \<times> real \<Rightarrow> CrashGame \<times> real" where
  "trackRoundResults dbOk activeBets finalCrashPoint st =
     (let realBets = filter (\<lambda>b. isRealWallet (walletId b)) activeBets
      in if length realBets = 0 then st
         else
           let totalBetAmount = foldl (\<lambda>sum b. sum + amount b) 0 realBets;
               totalPayouts = foldl (\<lambda>sum b. sum + countedPayout finalCrashPoint b) 0 realBets;
               houseProfit = totalBetAmount - totalPayouts
           in updateBetBasedOffsetAmount dbOk houseProfit st)"

text \<open>The two totals of the claim, over the real-money bets of the round.\<close>

definition totalStake :: "bet list \<Rightarrow> real" where
  "totalStake bs = sum_list (map amount (filter (\<lambda>b. isRealWallet (walletId b)) bs))"

definition totalPayout :: "real \<Rightarrow> bet list \<Rightarrow> real" where
  "totalPayout finalCrashPoint bs =
     sum_list (map (countedPayout finalCrashPoint) (filter (\<lambda>b. isRealWallet (walletId b)) bs))"

text \<open>A round of one real-money bet of 10 cashed out at 5x, final crash point 10,
  with an offset of 100 carried in.\<close>

definition winningRound :: "bet list" where
  "winningRound = [\<lparr>walletId = ''B1A2B3C4'', amount = 10, cashoutAt = Some 5\<rparr>]"

definition carriedOffset :: "CrashGame \<times> real" where
  "carriedOffset = (newCrashGame\<lparr>betBasedOffsetAmount := 100\<rparr>, 100)"

section \<open>Static and instance methods of CrashGame\<close>




section \<open>socketServer.ts: the emergency checks of a tick\<close>







definition singleBetSession :: "real \<Rightarrow> GameSession" where
  "singleBetSession a =
     startGame 1000 (snd (placeBet ''B1A2B3C4'' a (newGameSession ''g1'' ''h1'' 50 ''s1'' ''c1'' 7)))"


section \<open>The multiplier clock over a sequence of ticks\<close>

text \<open>The multipliers seen over a sequence of ticks at the times \<open>nows\<close>, the first entry
  being the multiplier before the first tick.\<close>

fun multiplierTrace :: "int list \<Rightarrow> GameSession \<Rightarrow> real list" where
  "multiplierTrace [] s = [currentMultiplier s]"
| "multiplierTrace (now # rest) s = currentMultiplier s # multiplierTrace rest (updateMultiplier now s)"

text \<open>The scheduler's ticks: \<open>n\<close> calls of \<open>updateMultiplier\<close>, 100 ms apart, the first one
  100 ms after time \<open>t\<close>.\<close>

fun runTicks :: "nat \<Rightarrow> int \<Rightarrow> GameSession \<Rightarrow> GameSession" where
  "runTicks 0 t s = s"
| "runTicks (Suc n) t s = runTicks n (t + 100) (updateMultiplier (t + 100) s)"

text \<open>The tolerance of the claim, read as generously as the grid allows: the multiplier
  is within one coarse step (0.51) of \<open>e^(0.3 t)\<close>.\<close>

definition withinOneStep :: "int \<Rightarrow> real \<Rightarrow> bool" where
  "withinOneStep elapsed m = (\<bar>m - rawMultiplier elapsed\<bar> \<le> 0.51)"

section \<open>socketServer.ts: the crash point of a new round\<close>


fun placeBuffered :: "(string \<times> real \<times> bool) list \<Rightarrow> GameSession \<Rightarrow> GameSession" where
  "placeBuffered [] s = s"
| "placeBuffered ((w, a, isSecondBet) # rest) s =
     placeBuffered rest (if isSecondBet then snd (placeSecondBet w a s) else snd (placeBet w a s))"





section \<open>The CrashGame class: generating and verifying a crash point\<close>

text \<open>
  HMAC-SHA256 is the argument \<open>hmac\<close>, from key and message to the hexadecimal digest; the
  house edge read from the settings and the byte drawn by \<open>crypto.randomBytes(1)\<close> are
  arguments too. \<open>parseInt(text, 16)\<close> reads the longest prefix of hexadecimal digits and
  is \<open>NaN\<close>, here \<open>None\<close>, when there is none (a digest has only such digits, so sign,
  blanks and a \<open>0x\<close> prefix are not modelled). A result that is not a finite number is
  \<open>None\<close>: \<open>NaN\<close> from an empty digest, \<open>Infinity\<close> from a house edge of 1. The
  arguments \<open>hash0\<close>, \<open>seed\<close> and \<open>slt\<close> are the source's \<open>gameHash\<close>, \<open>clientSeed\<close> and
  \<open>salt\<close>.
\<close>

definition hexDigit :: "char \<Rightarrow> nat option" where
  "hexDigit c =
     (let n = (of_char c :: nat)
      in if 48 \<le> n \<and> n \<le> 57 then Some (n - 48)
         else if 97 \<le> n \<and> n \<le> 102 then Some (n - 87)
         else if 65 \<le> n \<and> n \<le> 70 then Some (n - 55)
         else None)"

fun parseHexDigits :: "nat \<Rightarrow> string \<Rightarrow> nat" where
  "parseHexDigits acc [] = acc"
| "parseHexDigits acc (c # cs) =
     (case hexDigit c of None \<Rightarrow> acc | Some d \<Rightarrow> parseHexDigits (acc * 16 + d) cs)"

definition parseInt16 :: "string \<Rightarrow> nat option" where
  "parseInt16 s =
     (case s of
        [] \<Rightarrow> None
      | c # _ \<Rightarrow> (case hexDigit c of None \<Rightarrow> None | Some _ \<Rightarrow> Some (parseHexDigits 0 s)))"

definition randomFactor :: "nat \<Rightarrow> real" where
  "randomFactor randomByte = 1 + (real randomByte / 255 - 0.5) * 0.03"

definition calculateCrashPoint ::
  "(string \<Rightarrow> string \<Rightarrow> string) \<Rightarrow> real \<Rightarrow> nat \<Rightarrow> CrashGame \<Rightarrow>
   string \<Rightarrow> string \<Rightarrow> string \<Rightarrow> real option" where
  "calculateCrashPoint hmac houseEdge randomByte g hash0 seed slt =
     (let hash = hmac hash0 (seed @ ''-'' @ slt)
      in if isEmergencyCrash g then Some 1
         else case parseInt16 (take 13 hash) of
           None \<Rightarrow> None
         | Some h \<Rightarrow>
             let r = real h / 2 ^ 52
             in if r < 0.30 then Some 1
                else
                  let cp0 =
                        (if r < 0.31 then 20 + ((r - 0.30) / 0.01) * 20
                         else if r < 0.34 then 8 + ((r - 0.31) / 0.03) * 12
                         else if r < 0.40 then 4 + ((r - 0.34) / 0.06) * 4
                         else if r < 0.55 then 2 + ((r - 0.40) / 0.15) * 2
                         else if r < 0.75 then 1.3 + ((r - 0.55) / 0.20) * 0.7
                         else 1.01 + ((r - 0.75) / 0.25) * 0.29);
                      cp1 = (if cp0 > 1.0 then cp0 * randomFactor randomByte else cp0)
                  in if houseEdge = 1
                     then (if enforceMaxCrashpoint g then Some (max 1.0 (maxAllowedCrashpoint g))
                           else None)
                     else
                       let cp2 = cp1 / (1 - houseEdge);
                           cp3 = Math_floor (cp2 * 100) / 100;
                           cp4 = (if enforceMaxCrashpoint g \<and> cp3 > maxAllowedCrashpoint g
                                  then maxAllowedCrashpoint g else cp3)
                       in Some (max 1.0 cp4))"

definition verifyGame ::
  "(string \<Rightarrow> string \<Rightarrow> string) \<Rightarrow> nat \<Rightarrow> string \<Rightarrow> string \<Rightarrow> string \<Rightarrow> real \<Rightarrow> real option" where
  "verifyGame hmac randomByte serverSeed seed slt houseEdge =
     (let hash = hmac serverSeed (seed @ ''-'' @ slt)
      in case parseInt16 (take 13 hash) of
           None \<Rightarrow> None
         | Some h \<Rightarrow>
             let r = real h / 2 ^ 52
             in if r < 0.10 then Some 1
                else
                  let cp0 =
                        (if r < 0.12 then 100 + ((r - 0.10) / 0.02) * 100
                         else if r < 0.15 then 50 + ((r - 0.12) / 0.03) * 50
                         else if r < 0.18 then 30 + ((r - 0.15) / 0.03) * 20
                         else if r < 0.22 then 15 + ((r - 0.18) / 0.04) * 15
                         else if r < 0.28 then 8 + ((r - 0.22) / 0.06) * 7
                         else if r < 0.38 then 4 + ((r - 0.28) / 0.10) * 4
                         else if r < 0.53 then 2 + ((r - 0.38) / 0.15) * 2
                         else if r < 0.75 then 1.5 + ((r - 0.53) / 0.22) * 0.5
                         else 1.1 + ((r - 0.75) / 0.15) * 0.4);
                      cp1 = (if cp0 > 1.0 then cp0 * randomFactor randomByte else cp0)
                  in if houseEdge = 1 then None
                     else
                       let cp2 = cp1 / (1 - houseEdge);
                           cp3 = Math_floor (cp2 * 100) / 100
                       in Some (max 1.0 cp3))"

text \<open>HMAC-SHA256 at the one point used below: key \<open>a\<close>, message \<open>abc-def\<close>.\<close>

definition sampleHmac :: "string \<Rightarrow> string \<Rightarrow> string" where
  "sampleHmac key msg =
     (if key = ''a'' \<and> msg = ''abc-def''
      then ''28fe762d2bd7277f8cb57ca89cf111cb1650039ab45d2b14de0499046ac9852e''
      else [])"

section \<open>The CrashGame class: the queue of future crash points\<close>
























section \<open>Properties: one slot per wallet and track\<close>

lemma distinct_update_keys:
  "distinct (map fst al) \<Longrightarrow> distinct (map fst (AList.update k v al))"
  by (simp add: distinct_update)

text \<open>
  C5. A wallet has at most one entry in each track's ledger: both placing operations keep
  the wallets of the ledger pairwise distinct, and a call for a wallet that already has an
  entry in that track returns \<open>false\<close> and returns the session exactly as it was.
\<close>

theorem placeBet_second_rejected:
  "(distinct (map fst (bets s)) \<longrightarrow> distinct (map fst (bets (snd (placeBet w a s))))) \<and>
   (distinct (map fst (secondBets s)) \<longrightarrow>
      distinct (map fst (secondBets (snd (placeSecondBet w a s))))) \<and>
   (map_of (bets s) w \<noteq> None \<longrightarrow> placeBet w a s = (False, s)) \<and>
   (map_of (secondBets s) w \<noteq> None \<longrightarrow> placeSecondBet w a s = (False, s)) \<and>
   placeBet w a' (snd (placeBet w a s)) = (False, snd (placeBet w a s)) \<and>
   placeSecondBet w a' (snd (placeSecondBet w a s)) = (False, snd (placeSecondBet w a s))"
  by (auto simp add: placeBet_def placeSecondBet_def distinct_update_keys update_conv')

theorem placeBet_second_rejected_witness:
  "distinct (map fst (bets activeSession)) \<and>
   distinct (map fst (secondBets activeSession)) \<and>
   map_of (bets activeSession) ''B1A2B3C4'' \<noteq> None \<and>
   map_of (secondBets activeSession) ''B1A2B3C4'' \<noteq> None \<and>
   placeBet ''B1A2B3C4'' 50 activeSession = (False, activeSession) \<and>
   placeSecondBet ''B1A2B3C4'' 50 activeSession = (False, activeSession) \<and>
   distinct (map fst (bets (snd (placeBet ''B9'' 50 activeSession)))) \<and>
   distinct (map fst (secondBets (snd (placeSecondBet ''B9'' 50 activeSession))))"
proof -
  have d1: "distinct (map fst (bets activeSession))"
    and d2: "distinct (map fst (secondBets activeSession))"
    and m1: "map_of (bets activeSession) ''B1A2B3C4'' \<noteq> None"
    and m2: "map_of (secondBets activeSession) ''B1A2B3C4'' \<noteq> None"
    by (simp_all add: activeSession_def waitingSession_def startGame_def
        moveNextRoundBetsToCurrent_def moveSecondNextRoundBetsToCurrent_def
        placeBet_def placeSecondBet_def newGameSession_def)
  from placeBet_second_rejected [of activeSession "''B1A2B3C4''" 50 50] m1 m2
  have r: "placeBet ''B1A2B3C4'' 50 activeSession = (False, activeSession)"
          "placeSecondBet ''B1A2B3C4'' 50 activeSession = (False, activeSession)"
    by blast+
  from placeBet_second_rejected [of activeSession "''B9''" 50 50] d1 d2
  have k: "distinct (map fst (bets (snd (placeBet ''B9'' 50 activeSession))))"
          "distinct (map fst (secondBets (snd (placeSecondBet ''B9'' 50 activeSession))))"
    by blast+
  from d1 d2 m1 m2 r k show ?thesis by simp
qed

section \<open>Properties: cashing out once\<close>

lemma map_of_update_same: "map_of (AList.update k v al) k = Some v"
  by (simp add: update_conv')

lemma map_of_update_other: "k' \<noteq> k \<Longrightarrow> map_of (AList.update k v al) k' = map_of al k'"
  by (simp add: update_conv')

text \<open>
  C6. For an open bet in a round in progress, the first \<open>cashout\<close> returns
  stake times the current multiplier and records that multiplier on the bet; a second
  \<open>cashout\<close> at the same multiplier returns \<open>null\<close> and changes nothing. A recorded
  cashout multiplier is not overwritten by a later \<open>cashout\<close> of any wallet. The same holds
  for \<open>secondCashout\<close> on the second track.
\<close>

theorem cashout_exactly_once:
  "(isGameInProgress s \<and> map_of (bets s) w = Some b \<and> cashoutAt b = None \<longrightarrow>
      fst (cashout w s) = Some (amount b * currentMultiplier s) \<and>
      map_of (bets (snd (cashout w s))) w = Some (b\<lparr>cashoutAt := Some (currentMultiplier s)\<rparr>) \<and>
      currentMultiplier (snd (cashout w s)) = currentMultiplier s \<and>
      cashout w (snd (cashout w s)) = (None, snd (cashout w s))) \<and>
   (isGameInProgress s \<and> map_of (secondBets s) w = Some b \<and> cashoutAt b = None \<longrightarrow>
      fst (secondCashout w s) = Some (amount b * currentMultiplier s) \<and>
      map_of (secondBets (snd (secondCashout w s))) w =
        Some (b\<lparr>cashoutAt := Some (currentMultiplier s)\<rparr>) \<and>
      currentMultiplier (snd (secondCashout w s)) = currentMultiplier s \<and>
      secondCashout w (snd (secondCashout w s)) = (None, snd (secondCashout w s))) \<and>
   (map_of (bets s) w = Some b \<and> cashoutAt b \<noteq> None \<longrightarrow>
      map_of (bets (snd (cashout w' s))) w = Some b) \<and>
   (map_of (secondBets s) w = Some b \<and> cashoutAt b \<noteq> None \<longrightarrow>
      map_of (secondBets (snd (secondCashout w' s))) w = Some b)"
proof (intro conjI impI)
  assume h: "map_of (bets s) w = Some b \<and> cashoutAt b \<noteq> None"
  show "map_of (bets (snd (cashout w' s))) w = Some b"
  proof (cases "w' = w")
    case True
    with h show ?thesis by (auto simp add: cashout_def)
  next
    case False
    with h show ?thesis
      by (auto simp add: cashout_def map_of_update_other split: option.splits)
  qed
next
  assume h: "map_of (secondBets s) w = Some b \<and> cashoutAt b \<noteq> None"
  show "map_of (secondBets (snd (secondCashout w' s))) w = Some b"
  proof (cases "w' = w")
    case True
    with h show ?thesis by (auto simp add: secondCashout_def)
  next
    case False
    with h show ?thesis
      by (auto simp add: secondCashout_def map_of_update_other split: option.splits)
  qed
qed (auto simp add: cashout_def secondCashout_def isGameInProgress_def map_of_update_same)

theorem cashout_exactly_once_witness:
  "isGameInProgress activeSession \<and>
   map_of (bets activeSession) ''B1A2B3C4'' =
     Some \<lparr>walletId = ''B1A2B3C4'', amount = 100, cashoutAt = None\<rparr> \<and>
   map_of (secondBets activeSession) ''B1A2B3C4'' =
     Some \<lparr>walletId = ''B1A2B3C4'', amount = 100, cashoutAt = None\<rparr> \<and>
   fst (cashout ''B1A2B3C4'' activeSession) = Some 100 \<and>
   cashout ''B1A2B3C4'' (snd (cashout ''B1A2B3C4'' activeSession)) =
     (None, snd (cashout ''B1A2B3C4'' activeSession)) \<and>
   fst (secondCashout ''B1A2B3C4'' activeSession) = Some 100 \<and>
   secondCashout ''B1A2B3C4'' (snd (secondCashout ''B1A2B3C4'' activeSession)) =
     (None, snd (secondCashout ''B1A2B3C4'' activeSession)) \<and>
   map_of (bets (snd (cashout ''B9'' (snd (cashout ''B1A2B3C4'' activeSession))))) ''B1A2B3C4'' =
     Some \<lparr>walletId = ''B1A2B3C4'', amount = 100, cashoutAt = Some 1\<rparr> \<and>
   map_of (secondBets (snd (secondCashout ''B9'' (snd (secondCashout ''B1A2B3C4'' activeSession)))))
       ''B1A2B3C4'' =
     Some \<lparr>walletId = ''B1A2B3C4'', amount = 100, cashoutAt = Some 1\<rparr>"
proof -
  let ?b = "\<lparr>walletId = ''B1A2B3C4'', amount = 100, cashoutAt = None\<rparr>"
  let ?c = "\<lparr>walletId = ''B1A2B3C4'', amount = 100, cashoutAt = Some (1::real)\<rparr>"
  have p: "isGameInProgress activeSession"
    and m1: "map_of (bets activeSession) ''B1A2B3C4'' = Some ?b"
    and m2: "map_of (secondBets activeSession) ''B1A2B3C4'' = Some ?b"
    and c: "currentMultiplier activeSession = 1"
    by (simp_all add: activeSession_def waitingSession_def startGame_def isGameInProgress_def
        moveNextRoundBetsToCurrent_def moveSecondNextRoundBetsToCurrent_def
        placeBet_def placeSecondBet_def newGameSession_def)
  note t = cashout_exactly_once [of activeSession "''B1A2B3C4''" ?b "''B1A2B3C4''"]
  from t p m1 c have a1: "fst (cashout ''B1A2B3C4'' activeSession) = Some 100"
    and a2: "cashout ''B1A2B3C4'' (snd (cashout ''B1A2B3C4'' activeSession)) =
       (None, snd (cashout ''B1A2B3C4'' activeSession))"
    and a3: "map_of (bets (snd (cashout ''B1A2B3C4'' activeSession))) ''B1A2B3C4'' = Some ?c"
    by simp_all
  from t p m2 c have b1: "fst (secondCashout ''B1A2B3C4'' activeSession) = Some 100"
    and b2: "secondCashout ''B1A2B3C4'' (snd (secondCashout ''B1A2B3C4'' activeSession)) =
       (None, snd (secondCashout ''B1A2B3C4'' activeSession))"
    and b3: "map_of (secondBets (snd (secondCashout ''B1A2B3C4'' activeSession))) ''B1A2B3C4'' =
       Some ?c"
    by simp_all
  from cashout_exactly_once
    [of "snd (cashout ''B1A2B3C4'' activeSession)" "''B1A2B3C4''" ?c "''B9''"] a3
  have a4: "map_of (bets (snd (cashout ''B9'' (snd (cashout ''B1A2B3C4'' activeSession)))))
      ''B1A2B3C4'' = Some ?c"
    by simp
  from cashout_exactly_once
    [of "snd (secondCashout ''B1A2B3C4'' activeSession)" "''B1A2B3C4''" ?c "''B9''"] b3
  have b4: "map_of (secondBets (snd (secondCashout ''B9''
      (snd (secondCashout ''B1A2B3C4'' activeSession))))) ''B1A2B3C4'' = Some ?c"
    by simp
  from p m1 m2 a1 a2 b1 b2 a4 b4 show ?thesis by simp
qed

section \<open>Properties: placing a bet does not look at the lifecycle\<close>

text \<open>
  C10. \<open>placeBet\<close> returns \<open>true\<close> exactly when the primary ledger has no entry for the
  wallet, whether that entry is open or cashed out. The start and end timestamps play no
  part: with any other pair of timestamps the call returns the same boolean and the same
  ledger, and when it succeeds the new open bet is in the ledger.
\<close>

theorem placeBet_ignores_lifecycle:
  "fst (placeBet w a s) = (map_of (bets s) w = None) \<and>
   placeBet w a (s\<lparr>gameStartTime := st, gameEndTime := en\<rparr>) =
     (fst (placeBet w a s), (snd (placeBet w a s))\<lparr>gameStartTime := st, gameEndTime := en\<rparr>) \<and>
   (map_of (bets s) w = None \<longrightarrow>
      map_of (bets (snd (placeBet w a s))) w =
        Some \<lparr>walletId = w, amount = a, cashoutAt = None\<rparr>)"
  by (simp add: placeBet_def map_of_update_same)

theorem placeBet_ignores_lifecycle_witness:
  "lifecycleState activeSession = ACTIVE \<and> lifecycleState endedSession = ENDED \<and>
   map_of (bets activeSession) ''B7'' = None \<and> map_of (bets endedSession) ''B7'' = None \<and>
   fst (placeBet ''B7'' 20 activeSession) \<and> fst (placeBet ''B7'' 20 endedSession) \<and>
   map_of (bets (snd (placeBet ''B7'' 20 endedSession))) ''B7'' =
     Some \<lparr>walletId = ''B7'', amount = 20, cashoutAt = None\<rparr> \<and>
   \<not> fst (placeBet ''B1A2B3C4'' 20 endedSession) \<and>
   map_of (bets (snd (cashout ''B1A2B3C4'' activeSession))) ''B1A2B3C4'' =
     Some \<lparr>walletId = ''B1A2B3C4'', amount = 100, cashoutAt = Some 1\<rparr> \<and>
   \<not> fst (placeBet ''B1A2B3C4'' 20 (snd (cashout ''B1A2B3C4'' activeSession)))"
proof -
  have l: "lifecycleState activeSession = ACTIVE" "lifecycleState endedSession = ENDED"
    and n: "map_of (bets activeSession) ''B7'' = None" "map_of (bets endedSession) ''B7'' = None"
    and e: "map_of (bets endedSession) ''B1A2B3C4'' \<noteq> None"
    by (simp_all add: endedSession_def endGame_def activeSession_def waitingSession_def
        startGame_def lifecycleState_def moveNextRoundBetsToCurrent_def
        moveSecondNextRoundBetsToCurrent_def placeBet_def placeSecondBet_def newGameSession_def)
  have k: "map_of (bets (snd (cashout ''B1A2B3C4'' activeSession))) ''B1A2B3C4'' =
     Some \<lparr>walletId = ''B1A2B3C4'', amount = 100, cashoutAt = Some 1\<rparr>"
    by (simp add: cashout_def isGameInProgress_def activeSession_def waitingSession_def
        startGame_def moveNextRoundBetsToCurrent_def moveSecondNextRoundBetsToCurrent_def
        placeBet_def placeSecondBet_def newGameSession_def)
  from placeBet_ignores_lifecycle [of "''B7''" 20 activeSession] n
  have a: "fst (placeBet ''B7'' 20 activeSession)" by simp
  from placeBet_ignores_lifecycle [of "''B7''" 20 endedSession] n
  have b: "fst (placeBet ''B7'' 20 endedSession)"
    "map_of (bets (snd (placeBet ''B7'' 20 endedSession))) ''B7'' =
       Some \<lparr>walletId = ''B7'', amount = 20, cashoutAt = None\<rparr>" by simp_all
  from placeBet_ignores_lifecycle [of "''B1A2B3C4''" 20 endedSession] e
  have c: "\<not> fst (placeBet ''B1A2B3C4'' 20 endedSession)" by simp
  from placeBet_ignores_lifecycle
    [of "''B1A2B3C4''" 20 "snd (cashout ''B1A2B3C4'' activeSession)"] k
  have d: "\<not> fst (placeBet ''B1A2B3C4'' 20 (snd (cashout ''B1A2B3C4'' activeSession)))" by simp
  from l n a b c k d show ?thesis by simp
qed

section \<open>Properties: stored balances are clamped at zero\<close>

lemma find_setFirstUser:
  "find (\<lambda>u. walletId u = w) (map snd (setFirstUser w v us)) =
   map_option (\<lambda>u. u\<lparr>wallet := v, balance := v\<rparr>) (find (\<lambda>u. walletId u = w) (map snd us))"
  by (induction us) auto

text \<open>
  C9. For a wallet that has a row and a reachable database, \<open>updateUserBalance\<close> succeeds
  for every requested balance; the row then holds \<open>max 0 newBalance\<close>, which is not
  negative, and the in-memory user found for the wallet holds the same value in \<open>wallet\<close>
  and \<open>balance\<close>. In the two failing cases the call returns the error and no state.
\<close>

theorem updateUserBalance_clamps:
  "(userTable st w \<noteq> None \<longrightarrow>
      (\<exists>st'. updateUserBalance True w newBalance st = Inr st' \<and>
         userTable st' w = Some (max 0 newBalance) \<and>
         (\<forall>w'. w' \<noteq> w \<longrightarrow> userTable st' w' = userTable st w') \<and>
         find (\<lambda>u. walletId u = w) (map snd (users st')) =
           map_option (\<lambda>u. u\<lparr>wallet := max 0 newBalance, balance := max 0 newBalance\<rparr>)
             (find (\<lambda>u. walletId u = w) (map snd (users st))))) \<and>
   (updateUserBalance dbUp w newBalance st = Inr st' \<longrightarrow>
      userTable st' w = Some (max 0 newBalance) \<and> 0 \<le> the (userTable st' w)) \<and>
   (userTable st w = None \<longrightarrow> updateUserBalance True w newBalance st = Inl RecordNotFound) \<and>
   updateUserBalance False w newBalance st = Inl DbUnavailable"
  by (auto simp add: updateUserBalance_def find_setFirstUser split: option.splits if_splits)

theorem updateUserBalance_clamps_witness:
  "userTable demoServer ''B1A2B3C4'' \<noteq> None \<and>
   userTable demoServer ''B0'' = None \<and>
   (\<exists>st'. updateUserBalance True ''B1A2B3C4'' (-25) demoServer = Inr st' \<and>
      userTable st' ''B1A2B3C4'' = Some 0 \<and> 0 \<le> the (userTable st' ''B1A2B3C4'') \<and>
      map (\<lambda>u. (wallet u, balance u)) (map snd (users st')) = [(0, 0)]) \<and>
   updateUserBalance True ''B0'' (-25) demoServer = Inl RecordNotFound"
proof -
  have a: "userTable demoServer ''B1A2B3C4'' \<noteq> None" and b: "userTable demoServer ''B0'' = None"
    by (simp_all add: demoServer_def)
  from updateUserBalance_clamps [of demoServer "''B1A2B3C4''" "-25" True] a
  obtain st' where r: "updateUserBalance True ''B1A2B3C4'' (-25) demoServer = Inr st'"
    and t: "userTable st' ''B1A2B3C4'' = Some (max 0 (-25))"
    by blast
  from updateUserBalance_clamps [of demoServer "''B1A2B3C4''" "-25" True st'] r
  have n: "0 \<le> the (userTable st' ''B1A2B3C4'')" by blast
  from r have u: "map (\<lambda>u. (wallet u, balance u)) (map snd (users st')) = [(0, 0)]"
    by (auto simp add: updateUserBalance_def demoServer_def)
  from updateUserBalance_clamps [of demoServer "''B0''" "-25" True] b
  have c: "updateUserBalance True ''B0'' (-25) demoServer = Inl RecordNotFound" by blast
  from r t n u have "\<exists>st'. updateUserBalance True ''B1A2B3C4'' (-25) demoServer = Inr st' \<and>
      userTable st' ''B1A2B3C4'' = Some 0 \<and> 0 \<le> the (userTable st' ''B1A2B3C4'') \<and>
      map (\<lambda>u. (wallet u, balance u)) (map snd (users st')) = [(0, 0)]"
    by simp
  with a b c show ?thesis by blast
qed

section \<open>Properties: the offset after a round\<close>

lemma foldl_plus_sum_list:
  "foldl (\<lambda>sum b. sum + f b) (acc::real) bs = acc + sum_list (map f bs)"
  by (induction bs arbitrary: acc) simp_all

text \<open>
  C4 as stated fails: in a round where the players are paid 50 on a stake of 10, the
  claim's update \<open>offset + max 0 (stake - payout)\<close> would leave the offset at 100, and the
  code lowers it to 60.
\<close>

theorem offset_only_grows_counterexample:
  "totalStake winningRound = 10 \<and> totalPayout 10 winningRound = 50 \<and>
   betBasedOffsetAmount (fst (trackRoundResults True winningRound 10 carriedOffset)) = 60 \<and>
   snd (trackRoundResults True winningRound 10 carriedOffset) = 60 \<and>
   betBasedOffsetAmount (fst (trackRoundResults True winningRound 10 carriedOffset)) \<noteq>
     betBasedOffsetAmount (fst carriedOffset) +
       max 0 (totalStake winningRound - totalPayout 10 winningRound)"
  by (simp add: trackRoundResults_def updateBetBasedOffsetAmount_def winningRound_def
      carriedOffset_def newCrashGame_def totalStake_def totalPayout_def countedPayout_def
      isRealWallet_def startsWith_def)

text \<open>
  C4 amended. When the round has a real-money bet, the offset becomes
  \<open>max 0 (offset + (totalStake - totalPayout))\<close>: the signed house profit is added, so a
  round the players win lowers the offset, and the result is clamped at 0. The settings
  row receives the same value when the write succeeds and keeps its old value otherwise.
  When the round has no real-money bet nothing changes.
\<close>

theorem trackRoundResults_offset:
  "(filter (\<lambda>b. isRealWallet (walletId b)) bs \<noteq> [] \<longrightarrow>
      betBasedOffsetAmount (fst (trackRoundResults dbOk bs fcp st)) =
        max 0 (betBasedOffsetAmount (fst st) + (totalStake bs - totalPayout fcp bs)) \<and>
      0 \<le> betBasedOffsetAmount (fst (trackRoundResults dbOk bs fcp st)) \<and>
      snd (trackRoundResults dbOk bs fcp st) =
        (if dbOk then max 0 (betBasedOffsetAmount (fst st) + (totalStake bs - totalPayout fcp bs))
         else snd st)) \<and>
   (filter (\<lambda>b. isRealWallet (walletId b)) bs = [] \<longrightarrow> trackRoundResults dbOk bs fcp st = st)"
  by (simp add: trackRoundResults_def updateBetBasedOffsetAmount_def Let_def
      totalStake_def totalPayout_def foldl_plus_sum_list)

theorem trackRoundResults_offset_witness:
  "filter (\<lambda>b. isRealWallet (walletId b)) winningRound \<noteq> [] \<and>
   filter (\<lambda>b. isRealWallet (walletId b))
     [\<lparr>walletId = ''SIM_7'', amount = 10, cashoutAt = None\<rparr>] = [] \<and>
   betBasedOffsetAmount (fst (trackRoundResults True winningRound 10 carriedOffset)) = 60 \<and>
   snd (trackRoundResults False winningRound 10 carriedOffset) = 100 \<and>
   trackRoundResults True [\<lparr>walletId = ''SIM_7'', amount = 10, cashoutAt = None\<rparr>] 10 carriedOffset =
     carriedOffset"
proof -
  have a: "filter (\<lambda>b. isRealWallet (walletId b)) winningRound \<noteq> []"
    and b: "filter (\<lambda>b. isRealWallet (walletId b))
       [\<lparr>walletId = ''SIM_7'', amount = 10, cashoutAt = None\<rparr>] = []"
    and c: "totalStake winningRound = 10" "totalPayout 10 winningRound = 50"
           "betBasedOffsetAmount (fst carriedOffset) = 100" "snd carriedOffset = 100"
    by (simp_all add: winningRound_def isRealWallet_def startsWith_def totalStake_def
        totalPayout_def countedPayout_def carriedOffset_def newCrashGame_def)
  from trackRoundResults_offset [of winningRound True 10 carriedOffset] a c
  have d: "betBasedOffsetAmount (fst (trackRoundResults True winningRound 10 carriedOffset)) = 60"
    by simp
  from trackRoundResults_offset [of winningRound False 10 carriedOffset] a c
  have e: "snd (trackRoundResults False winningRound 10 carriedOffset) = 100"
    by simp
  from trackRoundResults_offset
    [of "[\<lparr>walletId = ''SIM_7'', amount = 10, cashoutAt = None\<rparr>]" True 10 carriedOffset] b
  have f: "trackRoundResults True [\<lparr>walletId = ''SIM_7'', amount = 10, cashoutAt = None\<rparr>] 10
       carriedOffset = carriedOffset"
    by blast
  from a b d e f show ?thesis by simp
qed

section \<open>Properties: the emergency threshold is strict\<close>







section \<open>Properties: the multiplier clock\<close>

lemma round_gt: "x - 1/2 < Math_round x"
  unfolding Math_round_def by linarith

lemma round_grid_small: "Math_round (of_int k + 11 / 10) = of_int (k + 1)"
proof -
  have "\<lfloor>(of_int k :: real) + 11 / 10 + 1 / 2\<rfloor> = k + 1" by linarith
  then show ?thesis by (simp add: Math_round_def)
qed

lemma round_grid_large: "Math_round (of_int k + 51) = of_int (k + 51)"
proof -
  have "\<lfloor>(of_int k :: real) + 51 + 1 / 2\<rfloor> = k + 51" by linarith
  then show ?thesis by (simp add: Math_round_def)
qed

lemma updateMultiplier_mono: "currentMultiplier s \<le> currentMultiplier (updateMultiplier now s)"
proof -
  have a: "c * 100 \<le> Math_round (c * 100 + 51)" for c :: real
    using round_gt [of "c * 100 + 51"] by linarith
  have b: "c * 100 \<le> Math_round (c * 100 + 11 / 10)" for c :: real
    using round_gt [of "c * 100 + 11 / 10"] by linarith
  show ?thesis
    by (auto simp add: updateMultiplier_def Let_def a b split: option.splits)
qed

lemma multiplierTrace_lower: "m \<in> set (multiplierTrace nows s) \<Longrightarrow> currentMultiplier s \<le> m"
proof (induction nows arbitrary: s)
  case Nil
  then show ?case by simp
next
  case (Cons now rest)
  from Cons.prems have "m = currentMultiplier s \<or> m \<in> set (multiplierTrace rest (updateMultiplier now s))"
    by simp
  then show ?case
  proof
    assume "m = currentMultiplier s" then show ?thesis by simp
  next
    assume "m \<in> set (multiplierTrace rest (updateMultiplier now s))"
    then have "currentMultiplier (updateMultiplier now s) \<le> m" by (rule Cons.IH)
    with updateMultiplier_mono [of s now] show ?thesis by linarith
  qed
qed

lemma multiplierTrace_sorted: "sorted (multiplierTrace nows s)"
proof (induction nows arbitrary: s)
  case Nil
  then show ?case by simp
next
  case (Cons now rest)
  have "currentMultiplier s \<le> m" if "m \<in> set (multiplierTrace rest (updateMultiplier now s))" for m
    using multiplierTrace_lower [OF that] updateMultiplier_mono [of s now] by linarith
  with Cons.IH [of "updateMultiplier now s"] show ?case by simp
qed

lemma updateMultiplier_step:
  assumes "currentMultiplier s = of_int k / 100"
  shows "currentMultiplier (updateMultiplier now s) = currentMultiplier s \<or>
     (isGameInProgress s \<and>
      currentMultiplier (updateMultiplier now s) =
        currentMultiplier s + (if currentMultiplier s > 10 then 0.51 else 0.01) \<and>
      (\<exists>started. gameStartTime s = Some started \<and>
         currentMultiplier s + (if currentMultiplier s > 10 then 0.51 else 0.011)
           \<le> rawMultiplier (now - started)))"
proof (cases "isGameInProgress s")
  case False
  then show ?thesis by (simp add: updateMultiplier_def)
next
  case True
  then obtain started where st: "gameStartTime s = Some started"
    by (auto simp add: isGameInProgress_def)
  let ?c = "currentMultiplier s"
  let ?raw = "rawMultiplier (now - started)"
  show ?thesis
  proof (cases "?c > 10")
    case big: True
    show ?thesis
    proof (cases "\<lfloor>(?raw - ?c) / 0.51\<rfloor> > 0")
      case True
      then have "1 \<le> (?raw - ?c) / 0.51" by (simp only: zero_less_floor)
      then have r: "?c + 0.51 \<le> ?raw" by simp
      have "Math_round ((?c + 0.51) * 100) / 100 = ?c + 0.51"
        using round_grid_large [of k] assms by (simp add: distrib_right)
      with True big st \<open>isGameInProgress s\<close> r show ?thesis
        by (simp add: updateMultiplier_def Let_def)
    next
      case False
      with big st \<open>isGameInProgress s\<close> show ?thesis
        by (simp add: updateMultiplier_def Let_def)
    qed
  next
    case small: False
    show ?thesis
    proof (cases "\<lfloor>(?raw - ?c) / 0.011\<rfloor> > 0")
      case True
      then have "1 \<le> (?raw - ?c) / 0.011" by (simp only: zero_less_floor)
      then have r: "?c + 0.011 \<le> ?raw" by simp
      have "Math_round ((?c + 0.011) * 100) / 100 = ?c + 0.01"
        using round_grid_small [of k] assms by (simp add: distrib_right)
      with True small st \<open>isGameInProgress s\<close> r show ?thesis
        by (simp add: updateMultiplier_def Let_def)
    next
      case False
      with small st \<open>isGameInProgress s\<close> show ?thesis
        by (simp add: updateMultiplier_def Let_def)
    qed
  qed
qed

lemma tick_below_ten:
  assumes p: "isGameInProgress s" and st: "gameStartTime s = Some started"
    and c: "currentMultiplier s = 1 + of_nat j / 100" and j: "j \<le> 900"
    and t: "t = started + 100 * int j"
  shows "currentMultiplier (updateMultiplier (t + 100) s) = 1 + of_nat (Suc j) / 100 \<and>
         isGameInProgress (updateMultiplier (t + 100) s) \<and>
         gameStartTime (updateMultiplier (t + 100) s) = Some started"
proof -
  have k: "currentMultiplier s = of_int (100 + int j) / 100" using c by simp
  have small: "\<not> currentMultiplier s > 10" using c j by simp
  have el: "t + 100 - started = 100 * (int j + 1)" using t by simp
  define x :: real where "x = 0.03 * (of_nat j + 1)"
  have e1: "rawMultiplier (t + 100 - started) = exp x"
    unfolding el rawMultiplier_def x_def by simp
  have e2: "1 + x \<le> exp x"
    by (rule exp_ge_add_one_self)
  have "(0::real) \<le> of_nat j" by simp
  then have e3: "currentMultiplier s + 0.011 \<le> 1 + x"
    unfolding x_def c by (simp add: field_simps)
  from e1 e2 e3 have raw: "currentMultiplier s + 0.011 \<le> rawMultiplier (t + 100 - started)"
    by linarith
  then have "1 \<le> (rawMultiplier (t + 100 - started) - currentMultiplier s) / 0.011" by simp
  then have steps: "\<lfloor>(rawMultiplier (t + 100 - started) - currentMultiplier s) / 0.011\<rfloor> > 0"
    by (simp only: zero_less_floor)
  have rnd: "Math_round ((currentMultiplier s + 0.011) * 100) / 100 = 1 + of_nat (Suc j) / 100"
    using round_grid_small [of "100 + int j"] k by (simp add: distrib_right)
  from p st small steps rnd show ?thesis
    by (simp add: updateMultiplier_def Let_def isGameInProgress_def)
qed

lemma runTicks_below_ten:
  "isGameInProgress s \<Longrightarrow> gameStartTime s = Some started \<Longrightarrow>
   currentMultiplier s = 1 + of_nat j / 100 \<Longrightarrow> j + n \<le> 900 \<Longrightarrow>
   t = started + 100 * int j \<Longrightarrow>
   currentMultiplier (runTicks n t s) = 1 + of_nat (j + n) / 100"
proof (induction n arbitrary: s j t)
  case 0
  then show ?case by simp
next
  case (Suc n)
  from Suc.prems have j: "j \<le> 900" by simp
  from tick_below_ten [OF Suc.prems(1) Suc.prems(2) Suc.prems(3) j Suc.prems(5)]
  have a: "currentMultiplier (updateMultiplier (t + 100) s) = 1 + of_nat (Suc j) / 100"
    and b: "isGameInProgress (updateMultiplier (t + 100) s)"
    and c: "gameStartTime (updateMultiplier (t + 100) s) = Some started"
    by simp_all
  have d: "Suc j + n \<le> 900" using Suc.prems(4) by simp
  have e: "t + 100 = started + 100 * int (Suc j)" using Suc.prems(5) by simp
  from Suc.IH [OF b c a d e] show ?case by simp
qed

lemma singleBetSession_started:
  "isGameInProgress (singleBetSession a) \<and> gameStartTime (singleBetSession a) = Some 1000 \<and>
   currentMultiplier (singleBetSession a) = 1 \<and> crashPoint (singleBetSession a) = 50"
  by (simp add: singleBetSession_def startGame_def moveNextRoundBetsToCurrent_def
      moveSecondNextRoundBetsToCurrent_def placeBet_def newGameSession_def isGameInProgress_def)

lemma exp_three_lower: "(8::real) \<le> exp 3"
proof -
  have "(2::real) \<le> exp 1" using exp_ge_add_one_self [of "1::real"] by simp
  then have "(2::real) ^ 3 \<le> exp 1 ^ 3" by (rule power_mono) simp
  also have "exp (1::real) ^ 3 = exp 3" by (simp flip: exp_of_nat_mult)
  finally show ?thesis by simp
qed

text \<open>
  C7 as stated fails in its second half. With the scheduler's ticks every 100 ms, ten
  seconds into a round the clock has made 100 steps of 0.01 and shows 2.00, while
  \<open>e^(0.3 * 10)\<close> is above 8: the multiplier is more than one step away from the formula.
\<close>

theorem multiplier_tracks_formula_counterexample:
  "currentMultiplier (runTicks 100 1000 (singleBetSession 100)) = 2 \<and>
   8 \<le> rawMultiplier (11000 - 1000) \<and>
   \<not> withinOneStep (11000 - 1000) (currentMultiplier (runTicks 100 1000 (singleBetSession 100)))"
proof -
  have c: "currentMultiplier (singleBetSession 100) = 1 + of_nat 0 / 100"
    using singleBetSession_started [of 100] by simp
  from runTicks_below_ten [of "singleBetSession 100" 1000 0 100 1000] c
    singleBetSession_started [of 100]
  have m: "currentMultiplier (runTicks 100 1000 (singleBetSession 100)) = 2" by simp
  have r: "8 \<le> rawMultiplier (11000 - 1000)"
    using exp_three_lower by (simp add: rawMultiplier_def)
  from m r show ?thesis by (simp add: withinOneStep_def)
qed

lemma updateMultiplier_grid:
  assumes "currentMultiplier s = of_int k / 100"
  shows "\<exists>k'. currentMultiplier (updateMultiplier now s) = of_int k' / 100"
proof -
  from updateMultiplier_step [OF assms, of now]
  consider "currentMultiplier (updateMultiplier now s) = of_int k / 100"
    | "currentMultiplier (updateMultiplier now s) = of_int k / 100 + 0.51"
    | "currentMultiplier (updateMultiplier now s) = of_int k / 100 + 0.01"
    using assms by (auto split: if_splits)
  then show ?thesis
  proof cases
    case 1
    then show ?thesis by blast
  next
    case 2
    then have "currentMultiplier (updateMultiplier now s) = of_int (k + 51) / 100" by simp
    then show ?thesis by blast
  next
    case 3
    then have "currentMultiplier (updateMultiplier now s) = of_int (k + 1) / 100" by simp
    then show ?thesis by blast
  qed
qed

text \<open>
  C7 amended. Over every sequence of ticks the multiplier is non-decreasing. A tick on a
  multiplier that lies on the 0.01 grid leaves it on the grid, and either leaves it
  unchanged or, in a round in progress, raises it by exactly one step, 0.01 when it is at
  most 10 and 0.51 above, however far ahead the exponential is; it raises it only when
  \<open>e^(0.3 t)\<close> is at least one increment (0.011, or 0.51 above 10) ahead, so the new value
  does not exceed it.
\<close>

theorem multiplier_nondecreasing_one_step:
  "sorted (multiplierTrace nows s) \<and>
   (currentMultiplier s = of_int k / 100 \<longrightarrow>
      (\<exists>k'. currentMultiplier (updateMultiplier now s) = of_int k' / 100) \<and>
      (currentMultiplier (updateMultiplier now s) = currentMultiplier s \<or>
       (isGameInProgress s \<and>
        currentMultiplier (updateMultiplier now s) =
          currentMultiplier s + (if currentMultiplier s > 10 then 0.51 else 0.01) \<and>
        (\<exists>started. gameStartTime s = Some started \<and>
           currentMultiplier s + (if currentMultiplier s > 10 then 0.51 else 0.011)
             \<le> rawMultiplier (now - started)))))"
  using multiplierTrace_sorted [of nows s] updateMultiplier_step [of s k now]
    updateMultiplier_grid [of s k now] by blast

theorem multiplier_nondecreasing_one_step_witness:
  "currentMultiplier (singleBetSession 100) = of_int 100 / 100 \<and>
   sorted (multiplierTrace [1100, 1200, 1300] (singleBetSession 100)) \<and>
   currentMultiplier (updateMultiplier 1100 (singleBetSession 100)) = 1.01 \<and>
   isGameInProgress (singleBetSession 100) \<and>
   (\<exists>started. gameStartTime (singleBetSession 100) = Some started \<and>
      currentMultiplier (singleBetSession 100) + 0.011 \<le> rawMultiplier (1100 - started))"
proof -
  note st = singleBetSession_started [of 100]
  have k: "currentMultiplier (singleBetSession 100) = of_int 100 / 100" using st by simp
  have c: "currentMultiplier (singleBetSession 100) = 1 + of_nat 0 / 100" using st by simp
  from tick_below_ten [of "singleBetSession 100" 1000 0 1000] c st
  have v: "currentMultiplier (updateMultiplier 1100 (singleBetSession 100)) = 1.01" by simp
  note t = multiplier_nondecreasing_one_step
    [of "[1100, 1200, 1300]" "singleBetSession 100" 100 1100]
  from t have srt: "sorted (multiplierTrace [1100, 1200, 1300] (singleBetSession 100))" by blast
  from t k v st
  have e: "\<exists>started. gameStartTime (singleBetSession 100) = Some started \<and>
      currentMultiplier (singleBetSession 100) + 0.011 \<le> rawMultiplier (1100 - started)"
    by auto
  from k srt v st e show ?thesis by blast
qed

section \<open>Properties: overrides replace the crash point\<close>

lemma crashPoint_placeBuffered: "crashPoint (placeBuffered buffer s) = crashPoint s"
  by (induction buffer s rule: placeBuffered.induct) (simp_all add: placeBet_def placeSecondBet_def)









section \<open>Properties: verification against generation\<close>

lemma hexDigit_simps:
  "hexDigit CHR ''0'' = Some 0" "hexDigit CHR ''1'' = Some 1" "hexDigit CHR ''2'' = Some 2"
  "hexDigit CHR ''3'' = Some 3" "hexDigit CHR ''4'' = Some 4" "hexDigit CHR ''5'' = Some 5"
  "hexDigit CHR ''6'' = Some 6" "hexDigit CHR ''7'' = Some 7" "hexDigit CHR ''8'' = Some 8"
  "hexDigit CHR ''9'' = Some 9" "hexDigit CHR ''a'' = Some 10" "hexDigit CHR ''b'' = Some 11"
  "hexDigit CHR ''c'' = Some 12" "hexDigit CHR ''d'' = Some 13" "hexDigit CHR ''e'' = Some 14"
  "hexDigit CHR ''f'' = Some 15"
  by (simp_all add: hexDigit_def)

lemma sampleHmac_parsed: "parseInt16 (take 13 (sampleHmac ''a'' (''abc'' @ ''-'' @ ''def''))) = Some 721173911616882"
  by (simp add: parseInt16_def sampleHmac_def hexDigit_simps)

lemma verifyGame_sample_not_one: "verifyGame sampleHmac randomByte ''a'' ''abc'' ''def'' 0.25 \<noteq> Some 1"
proof -
  define y :: real where
    "y = (30 + ((real 721173911616882 / 2 ^ 52 - 0.15) / 0.03) * 20) * randomFactor randomByte
           / (1 - 0.25) * 100"
  have v: "verifyGame sampleHmac randomByte ''a'' ''abc'' ''def'' 0.25 =
             Some (max 1.0 (Math_floor y / 100))"
    using sampleHmac_parsed by (simp add: verifyGame_def y_def randomFactor_def)
  have "(0::real) \<le> real randomByte" by simp
  then have "(0.985::real) \<le> randomFactor randomByte"
    by (simp add: randomFactor_def field_simps)
  then have "(4800::real) \<le> y"
    unfolding y_def by (simp add: field_simps)
  then have "(4800::int) \<le> \<lfloor>y\<rfloor>" by (simp add: le_floor_iff)
  then have "(48::real) \<le> Math_floor y / 100" by (simp add: Math_floor_def)
  with v show ?thesis by simp
qed

text \<open>
  C1. The claim is that verification reproduces generation. On the code it does not: the
  two functions map the same fraction \<open>r\<close> through different tables. For server seed
  \<open>a\<close>, client seed \<open>abc\<close>, salt \<open>def\<close> and house edge 0.25 the fraction is about 0.16;
  generation returns 1.00 (its instant-crash bucket reaches 0.30) for every jitter byte,
  verification returns 49.00 for the byte 128 and never 1.00.
\<close>

theorem verifyGame_differs_from_generation:
  "calculateCrashPoint sampleHmac 0.25 randomByte newCrashGame ''a'' ''abc'' ''def'' = Some 1 \<and>
   verifyGame sampleHmac 128 ''a'' ''abc'' ''def'' 0.25 = Some 49 \<and>
   verifyGame sampleHmac randomByte ''a'' ''abc'' ''def'' 0.25 \<noteq>
     calculateCrashPoint sampleHmac 0.25 randomByte newCrashGame ''a'' ''abc'' ''def''"
proof -
  have a: "calculateCrashPoint sampleHmac 0.25 randomByte newCrashGame ''a'' ''abc'' ''def'' = Some 1"
    using sampleHmac_parsed by (simp add: calculateCrashPoint_def newCrashGame_def)
  have b: "verifyGame sampleHmac 128 ''a'' ''abc'' ''def'' 0.25 = Some 49"
    using sampleHmac_parsed by (simp add: verifyGame_def randomFactor_def Math_floor_def)
  from a b verifyGame_sample_not_one [of randomByte] show ?thesis by simp
qed

section \<open>Properties: retries of the round queue\<close>







































end
